theory Spec2Isabelle
  imports Complex_Main
begin

section \<open>Python helpers\<close>

text \<open>
  The engine is \<^verbatim>\<open>python/parallel_llm_executor.py\<close>; the catalogue it reads is
  \<^verbatim>\<open>python/cogniware_llms.py\<close>. Python floats are modelled as exact reals (rounding
  is outside the embedding), Python ints that are lengths or counters as \<open>nat\<close>,
  strings as \<open>string\<close>.
\<close>

definition newline :: string where
  "newline = [CHR 0x0A]"

text \<open>The slice \<^verbatim>\<open>xs[:n]\<close>; a negative \<open>n\<close> counts from the end.\<close>

definition py_prefix :: "int \<Rightarrow> 'a list \<Rightarrow> 'a list" where
  "py_prefix n xs = (if 0 \<le> n then take (nat n) xs else take (length xs - nat (- n)) xs)"

text \<open>The slice \<^verbatim>\<open>xs[-n:]\<close> for a positive literal \<open>n\<close>: the last \<open>n\<close> entries, or all of them.\<close>

definition py_suffix :: "nat \<Rightarrow> 'a list \<Rightarrow> 'a list" where
  "py_suffix n xs = drop (length xs - n) xs"

text \<open>
  \<^verbatim>\<open>max(xs, key=f, default=None)\<close>: one pass from the left that replaces the
  current best only by a strictly greater key, so the first maximal element wins.
\<close>

fun max_from :: "('a \<Rightarrow> real) \<Rightarrow> 'a \<Rightarrow> 'a list \<Rightarrow> 'a" where
  "max_from key best [] = best"
| "max_from key best (x # xs) = max_from key (if key best < key x then x else best) xs"

definition py_max_key :: "('a \<Rightarrow> real) \<Rightarrow> 'a list \<Rightarrow> 'a option" where
  "py_max_key key xs = (case xs of [] \<Rightarrow> None | x # rest \<Rightarrow> Some (max_from key x rest))"

text \<open>
  \<^verbatim>\<open>max(xs)\<close> on numbers. Python raises ValueError on an empty list; the only call
  passes a list that holds the literal 0, so that case does not arise.
\<close>

definition py_max :: "real list \<Rightarrow> real" where
  "py_max xs = fold max (tl xs) (hd xs)"

datatype pyval = PStr string | PInt int | PFloat real | PDict "(string \<times> pyval) list"

section \<open>Data model\<close>

datatype ProcessingStrategy = PARALLEL | INTERFACE_ONLY | KNOWLEDGE_ONLY | SEQUENTIAL | CONSENSUS

fun strategy_value :: "ProcessingStrategy \<Rightarrow> string" where
  "strategy_value PARALLEL = ''parallel''"
| "strategy_value INTERFACE_ONLY = ''interface_only''"
| "strategy_value KNOWLEDGE_ONLY = ''knowledge_only''"
| "strategy_value SEQUENTIAL = ''sequential''"
| "strategy_value CONSENSUS = ''consensus''"

text \<open>A catalogue entry; the engine reads only these three keys of the dict.\<close>

record llm =
  model_id :: string
  model_name :: string
  model_type :: string

text \<open>\<^verbatim>\<open>LLMRequest\<close>; the \<^verbatim>\<open>parameters\<close> dict always holds exactly these two keys.\<close>

record LLMRequest =
  req_llm_id :: string
  req_llm_name :: string
  req_llm_type :: string
  prompt :: string
  temperature :: real
  max_tokens :: int
  priority :: int

record LLMResponse =
  llm_id :: string
  llm_name :: string
  llm_type :: string
  response_text :: string
  resp_confidence_score :: real
  processing_time_ms :: real
  tokens_generated :: int
  resp_success :: bool
  resp_error :: "string option"
  resp_metadata :: "(string \<times> pyval) list option"

record ParallelExecutionResult =
  success :: bool
  strategy_used :: string
  llms_executed :: nat
  interface_llm_results :: "LLMResponse list"
  knowledge_llm_results :: "LLMResponse list"
  synthesized_result :: string
  confidence_score :: real
  total_processing_time_ms :: real
  parallel_speedup :: real
  error :: "string option"
  metadata :: "(string \<times> pyval) list option"

record stats_dict =
  total_executions :: nat
  parallel_executions :: nat
  single_executions :: nat
  average_speedup :: real
  total_time_saved_ms :: real

record history_entry =
  h_timestamp :: string
  h_prompt :: string
  h_strategy :: string
  h_llms_used :: nat
  h_time_ms :: real
  h_speedup :: real

text \<open>
  The state of a \<^verbatim>\<open>ParallelLLMExecutor\<close>. The two \<^verbatim>\<open>current_*\<close> attributes do not
  exist before the first call of \<^verbatim>\<open>execute_parallel\<close> (\<open>None\<close>).
\<close>

record executor =
  max_workers :: nat
  execution_history :: "history_entry list"
  statistics :: stats_dict
  current_module :: "string option"
  current_context :: "(string \<times> string) list option"

definition init_executor :: "nat \<Rightarrow> executor" where
  "init_executor n =
     \<lparr>max_workers = n, execution_history = [],
      statistics = \<lparr>total_executions = 0, parallel_executions = 0, single_executions = 0,
                    average_speedup = 0, total_time_saved_ms = 0\<rparr>,
      current_module = None, current_context = None\<rparr>"

section \<open>What the engine does not compute itself\<close>

text \<open>
  The body of the \<^verbatim>\<open>try\<close> block of \<^verbatim>\<open>_execute_single_llm\<close> (the simulated responder,
  to be replaced by the inference engine) either computes a text, a confidence and a
  token count, or raises an exception \<open>e\<close>, of which the code keeps \<^verbatim>\<open>str(e)\<close>.
\<close>

datatype sim_outcome = Generated string real int | Raises string

text \<open>
  Everything one call of \<^verbatim>\<open>execute_parallel\<close> reads from outside: the catalogue
  \<^verbatim>\<open>COGNIWARE_LLMS\<close>, the responder (given module, context and request), the elapsed
  time each call measures, whether \<^verbatim>\<open>future.result(timeout=30)\<close> raises for a request
  (\<open>Some (str e)\<close>; the deadline raises \<^verbatim>\<open>TimeoutError()\<close>, whose \<^verbatim>\<open>str\<close> is empty),
  the wall-clock time of the whole call and the timestamp.
\<close>

record world =
  catalog :: "llm list"
  run_model :: "string \<Rightarrow> (string \<times> string) list \<Rightarrow> LLMRequest \<Rightarrow> sim_outcome"
  elapsed_ms :: "LLMRequest \<Rightarrow> real"
  future_exception :: "LLMRequest \<Rightarrow> string option"
  wall_clock_ms :: real
  now_isoformat :: string

section \<open>The catalogue\<close>

definition mk_llm :: "string \<Rightarrow> string \<Rightarrow> string \<Rightarrow> llm" where
  "mk_llm i n t = \<lparr>model_id = i, model_name = n, model_type = t\<rparr>"

definition COGNIWARE_LLMS :: "llm list" where
  "COGNIWARE_LLMS =
    [mk_llm ''cogniware-chat-7b'' ''Cogniware Chat 7B'' ''interface'',
     mk_llm ''cogniware-chat-13b'' ''Cogniware Chat 13B'' ''interface'',
     mk_llm ''cogniware-code-7b'' ''Cogniware Code 7B'' ''interface'',
     mk_llm ''cogniware-code-13b'' ''Cogniware Code 13B'' ''interface'',
     mk_llm ''cogniware-knowledge-7b'' ''Cogniware Knowledge 7B'' ''knowledge'',
     mk_llm ''cogniware-knowledge-13b'' ''Cogniware Knowledge 13B'' ''knowledge'',
     mk_llm ''cogniware-embed-base'' ''Cogniware Embeddings Base'' ''embedding'',
     mk_llm ''cogniware-embed-large'' ''Cogniware Embeddings Large'' ''embedding'',
     mk_llm ''cogniware-sql-7b'' ''Cogniware SQL 7B'' ''interface'',
     mk_llm ''cogniware-summarize-7b'' ''Cogniware Summarization 7B'' ''interface'',
     mk_llm ''cogniware-translate-7b'' ''Cogniware Translation 7B'' ''interface'',
     mk_llm ''cogniware-sentiment-base'' ''Cogniware Sentiment Analysis'' ''specialized'']"

definition get_llms_by_type :: "llm list \<Rightarrow> string \<Rightarrow> llm list" where
  "get_llms_by_type cat t = filter (\<lambda>l. model_type l = t) cat"

definition get_interface_llms :: "llm list \<Rightarrow> llm list" where
  "get_interface_llms cat = get_llms_by_type cat ''interface''"

definition get_knowledge_llms :: "llm list \<Rightarrow> llm list" where
  "get_knowledge_llms cat = get_llms_by_type cat ''knowledge''"

section \<open>Model invoker\<close>

text \<open>\<^verbatim>\<open>getattr(self, 'current_module', 'code_generation')\<close> and its sibling.\<close>

definition module_of :: "executor \<Rightarrow> string" where
  "module_of ex = (case current_module ex of None \<Rightarrow> ''code_generation'' | Some m \<Rightarrow> m)"

definition context_of :: "executor \<Rightarrow> (string \<times> string) list" where
  "context_of ex = (case current_context ex of None \<Rightarrow> [] | Some c \<Rightarrow> c)"

text \<open>
  \<^verbatim>\<open>_execute_single_llm\<close>: the \<^verbatim>\<open>except Exception\<close> clause turns every exception of
  the body into a response, so the function returns a response on every path.
\<close>

definition execute_single_llm :: "executor \<Rightarrow> world \<Rightarrow> LLMRequest \<Rightarrow> LLMResponse" where
  "execute_single_llm ex w request =
     (case run_model w (module_of ex) (context_of ex) request of
        Generated text confidence tokens \<Rightarrow>
          \<lparr>llm_id = req_llm_id request, llm_name = req_llm_name request,
           llm_type = req_llm_type request, response_text = text,
           resp_confidence_score = confidence, processing_time_ms = elapsed_ms w request,
           tokens_generated = tokens, resp_success = True, resp_error = None,
           resp_metadata = Some
             [(''model_parameters'',
                 PDict [(''temperature'', PFloat (temperature request)),
                        (''max_tokens'', PInt (max_tokens request))]),
              (''prompt_length'', PInt (int (length (prompt request))))]\<rparr>
      | Raises e \<Rightarrow>
          \<lparr>llm_id = req_llm_id request, llm_name = req_llm_name request,
           llm_type = req_llm_type request, response_text = '''',
           resp_confidence_score = 0, processing_time_ms = elapsed_ms w request,
           tokens_generated = 0, resp_success = False, resp_error = Some e,
           resp_metadata = None\<rparr>)"

definition format_interface_prompt :: "string \<Rightarrow> string" where
  "format_interface_prompt p =
     ''You are a helpful AI assistant specialized in generating code and solutions.''
     @ newline @ newline @ ''User Request: '' @ p @ newline @ newline
     @ ''Please provide a complete, working solution with proper code formatting, comments, and examples.''"

definition format_knowledge_prompt :: "string \<Rightarrow> string" where
  "format_knowledge_prompt p =
     ''You are a knowledge retrieval system. Provide relevant context and information.''
     @ newline @ newline @ ''User Request: '' @ p @ newline @ newline
     @ ''Please provide: 1) Relevant background information, 2) Best practices, 3) Common pitfalls to avoid.''"

section \<open>Synthesizer\<close>

text \<open>The block that \<^verbatim>\<open>_synthesize_parallel_results\<close> appends to the interface text.\<close>

definition knowledge_block :: "LLMResponse \<Rightarrow> string" where
  "knowledge_block k =
     newline @ newline @ ''# Knowledge Context (from '' @ llm_name k @ ''):'' @ newline
     @ ''# '' @ response_text k @ newline"

definition best_success :: "LLMResponse list \<Rightarrow> LLMResponse option" where
  "best_success rs = py_max_key resp_confidence_score (filter resp_success rs)"

definition synthesize_parallel_results ::
  "LLMResponse list \<Rightarrow> LLMResponse list \<Rightarrow> string \<times> real \<times> real" where
  "synthesize_parallel_results interface_results knowledge_results =
     (let sequential_time = sum_list (map processing_time_ms (interface_results @ knowledge_results));
          parallel_time = py_max (map processing_time_ms interface_results @ [0]
                                  @ map processing_time_ms knowledge_results @ [0]);
          speedup = (if 0 < parallel_time then sequential_time / parallel_time else 1);
          best_interface = best_success interface_results;
          best_knowledge = best_success knowledge_results
      in case (best_interface, best_knowledge) of
           (Some bi, Some bk) \<Rightarrow>
             (response_text bi @ knowledge_block bk,
              resp_confidence_score bi * 0.7 + resp_confidence_score bk * 0.3, speedup)
         | (Some bi, None) \<Rightarrow> (response_text bi, resp_confidence_score bi * 0.8, speedup)
         | (None, Some bk) \<Rightarrow> (response_text bk, resp_confidence_score bk * 0.6, speedup)
         | (None, None) \<Rightarrow> (''Unable to generate result from available LLMs'', 0, speedup))"

section \<open>Dispatch and strategies\<close>

text \<open>The response \<^verbatim>\<open>_execute_parallel_mcp\<close> builds when \<^verbatim>\<open>future.result\<close> raises \<open>e\<close>.\<close>

definition error_response :: "LLMRequest \<Rightarrow> string \<Rightarrow> LLMResponse" where
  "error_response req e =
     \<lparr>llm_id = req_llm_id req, llm_name = req_llm_name req, llm_type = req_llm_type req,
      response_text = '''', resp_confidence_score = 0, processing_time_ms = 0,
      tokens_generated = 0, resp_success = False, resp_error = Some e, resp_metadata = None\<rparr>"

text \<open>
  The collecting loop of \<^verbatim>\<open>_execute_parallel_mcp\<close> over the pairs (future, request), in
  submission order, with the two result lists as accumulators.
\<close>

fun collect_parallel ::
  "executor \<Rightarrow> world \<Rightarrow> LLMRequest list \<Rightarrow> LLMResponse list \<Rightarrow> LLMResponse list
   \<Rightarrow> LLMResponse list \<times> LLMResponse list" where
  "collect_parallel ex w [] interface_results knowledge_results =
     (interface_results, knowledge_results)"
| "collect_parallel ex w (req # rest) interface_results knowledge_results =
     (let response = (case future_exception w req of
                        None \<Rightarrow> execute_single_llm ex w req
                      | Some e \<Rightarrow> error_response req e)
      in if req_llm_type req = ''interface''
         then collect_parallel ex w rest (interface_results @ [response]) knowledge_results
         else collect_parallel ex w rest interface_results (knowledge_results @ [response]))"

definition parallel_requests ::
  "string \<Rightarrow> llm list \<Rightarrow> llm list \<Rightarrow> real \<Rightarrow> int \<Rightarrow> LLMRequest list" where
  "parallel_requests p interface_llms knowledge_llms temp maxtok =
     map (\<lambda>l. \<lparr>req_llm_id = model_id l, req_llm_name = model_name l,
                req_llm_type = ''interface'', prompt = format_interface_prompt p,
                temperature = temp, max_tokens = maxtok, priority = 1\<rparr>) interface_llms
     @ map (\<lambda>l. \<lparr>req_llm_id = model_id l, req_llm_name = model_name l,
                  req_llm_type = ''knowledge'', prompt = format_knowledge_prompt p,
                  temperature = temp, max_tokens = maxtok, priority = 1\<rparr>) knowledge_llms"

definition execute_parallel_mcp ::
  "executor \<Rightarrow> world \<Rightarrow> string \<Rightarrow> llm list \<Rightarrow> llm list \<Rightarrow> real \<Rightarrow> int
   \<Rightarrow> ParallelExecutionResult" where
  "execute_parallel_mcp ex w p interface_llms knowledge_llms temp maxtok =
     (let llm_requests = parallel_requests p interface_llms knowledge_llms temp maxtok;
          (interface_results, knowledge_results) = collect_parallel ex w llm_requests [] [];
          (synthesized, confidence, speedup) =
             synthesize_parallel_results interface_results knowledge_results
      in \<lparr>success = True, strategy_used = ''parallel_mcp'',
          llms_executed = length interface_results + length knowledge_results,
          interface_llm_results = interface_results,
          knowledge_llm_results = knowledge_results,
          synthesized_result = synthesized, confidence_score = confidence,
          total_processing_time_ms = 0, parallel_speedup = speedup, error = None,
          metadata = Some
            [(''interface_llms_used'', PInt (int (length interface_results))),
             (''knowledge_llms_used'', PInt (int (length knowledge_results))),
             (''synthesis_method'', PStr ''weighted_combination''),
             (''patent_claim'', PStr ''Multi-Context Processing (MCP)'')]\<rparr>)"

definition execute_single_type ::
  "executor \<Rightarrow> world \<Rightarrow> string \<Rightarrow> llm list \<Rightarrow> real \<Rightarrow> int \<Rightarrow> string
   \<Rightarrow> ParallelExecutionResult" where
  "execute_single_type ex w p llms temp maxtok ty =
     (case llms of
        [] \<Rightarrow>
          \<lparr>success = False, strategy_used = ty @ ''_only'', llms_executed = 0,
           interface_llm_results = [], knowledge_llm_results = [],
           synthesized_result = '''', confidence_score = 0,
           total_processing_time_ms = 0, parallel_speedup = 1,
           error = Some (''No '' @ ty @ '' LLMs available''), metadata = None\<rparr>
      | l # _ \<Rightarrow>
          (let request = \<lparr>req_llm_id = model_id l, req_llm_name = model_name l,
                           req_llm_type = ty, prompt = p, temperature = temp,
                           max_tokens = maxtok, priority = 1\<rparr>;
               response = execute_single_llm ex w request
           in \<lparr>success = resp_success response, strategy_used = ty @ ''_only'',
               llms_executed = 1,
               interface_llm_results = (if ty = ''interface'' then [response] else []),
               knowledge_llm_results = (if ty = ''knowledge'' then [response] else []),
               synthesized_result = response_text response,
               confidence_score = resp_confidence_score response,
               total_processing_time_ms = 0, parallel_speedup = 1,
               error = (if \<not> resp_success response then resp_error response else None),
               metadata = None\<rparr>))"

definition execute_sequential ::
  "executor \<Rightarrow> world \<Rightarrow> string \<Rightarrow> llm list \<Rightarrow> llm list \<Rightarrow> real \<Rightarrow> int
   \<Rightarrow> ParallelExecutionResult" where
  "execute_sequential ex w p interface_llms knowledge_llms temp maxtok =
     (let interface_result =
            (case interface_llms of
               [] \<Rightarrow> None
             | l # _ \<Rightarrow> Some (execute_single_llm ex w
                  \<lparr>req_llm_id = model_id l, req_llm_name = model_name l,
                   req_llm_type = ''interface'', prompt = p, temperature = temp,
                   max_tokens = maxtok, priority = 1\<rparr>));
          knowledge_result =
            (case knowledge_llms of
               [] \<Rightarrow> None
             | l # _ \<Rightarrow>
                 (let knowledge_prompt = p @ newline @ newline @ ''Context from interface: ''
                        @ (case interface_result of None \<Rightarrow> '''' | Some r \<Rightarrow> response_text r)
                  in Some (execute_single_llm ex w
                       \<lparr>req_llm_id = model_id l, req_llm_name = model_name l,
                        req_llm_type = ''knowledge'', prompt = knowledge_prompt,
                        temperature = temp, max_tokens = maxtok, priority = 1\<rparr>)));
          interface_results = (case interface_result of None \<Rightarrow> [] | Some r \<Rightarrow> [r]);
          knowledge_results = (case knowledge_result of None \<Rightarrow> [] | Some r \<Rightarrow> [r]);
          (synthesized, confidence, speedup) =
             synthesize_parallel_results interface_results knowledge_results
      in \<lparr>success = True, strategy_used = ''sequential'',
          llms_executed = length interface_results + length knowledge_results,
          interface_llm_results = interface_results,
          knowledge_llm_results = knowledge_results,
          synthesized_result = synthesized, confidence_score = confidence,
          total_processing_time_ms = 0, parallel_speedup = 0.5, error = None,
          metadata = Some [(''execution_order'', PStr ''interface_first'')]\<rparr>)"

text \<open>
  The collecting loop of \<^verbatim>\<open>_execute_consensus\<close>: a bare \<^verbatim>\<open>except: pass\<close> drops the
  request whose \<^verbatim>\<open>future.result\<close> raises.
\<close>

fun collect_consensus ::
  "executor \<Rightarrow> world \<Rightarrow> LLMRequest list \<Rightarrow> LLMResponse list \<Rightarrow> LLMResponse list" where
  "collect_consensus ex w [] all_results = all_results"
| "collect_consensus ex w (req # rest) all_results =
     (case future_exception w req of
        None \<Rightarrow> collect_consensus ex w rest (all_results @ [execute_single_llm ex w req])
      | Some e \<Rightarrow> collect_consensus ex w rest all_results)"

definition consensus_requests :: "string \<Rightarrow> llm list \<Rightarrow> real \<Rightarrow> int \<Rightarrow> LLMRequest list" where
  "consensus_requests p llms temp maxtok =
     map (\<lambda>l. \<lparr>req_llm_id = model_id l, req_llm_name = model_name l,
                req_llm_type = model_type l, prompt = p, temperature = temp,
                max_tokens = maxtok, priority = 1\<rparr>) (py_prefix 3 llms)"

definition execute_consensus ::
  "executor \<Rightarrow> world \<Rightarrow> string \<Rightarrow> llm list \<Rightarrow> real \<Rightarrow> int \<Rightarrow> ParallelExecutionResult" where
  "execute_consensus ex w p llms temp maxtok =
     (let requests = consensus_requests p llms temp maxtok;
          all_results = collect_consensus ex w requests [];
          best = py_max_key resp_confidence_score all_results;
          interface_results = filter (\<lambda>r. llm_type r = ''interface'') all_results;
          knowledge_results = filter (\<lambda>r. llm_type r = ''knowledge'') all_results
      in \<lparr>success = (best \<noteq> None), strategy_used = ''consensus'',
          llms_executed = length all_results,
          interface_llm_results = interface_results,
          knowledge_llm_results = knowledge_results,
          synthesized_result = (case best of None \<Rightarrow> '''' | Some b \<Rightarrow> response_text b),
          confidence_score = (case best of None \<Rightarrow> 0 | Some b \<Rightarrow> resp_confidence_score b),
          total_processing_time_ms = 0,
          parallel_speedup = real (length all_results) * 0.8, error = None,
          metadata = Some [(''voting_method'', PStr ''highest_confidence'')]\<rparr>)"

section \<open>Statistics ledger\<close>

definition update_statistics :: "executor \<Rightarrow> ParallelExecutionResult \<Rightarrow> executor" where
  "update_statistics ex result =
     (let s = statistics ex;
          s1 = s\<lparr>total_executions := total_executions s + 1\<rparr>;
          s2 = (if 1 < llms_executed result
                then s1\<lparr>parallel_executions := parallel_executions s1 + 1\<rparr>
                else s1\<lparr>single_executions := single_executions s1 + 1\<rparr>);
          total_speedup = average_speedup s2 * (real (total_executions s2) - 1)
                          + parallel_speedup result;
          s3 = s2\<lparr>average_speedup := total_speedup / real (total_executions s2)\<rparr>;
          estimated_sequential_time = total_processing_time_ms result * parallel_speedup result;
          time_saved = estimated_sequential_time - total_processing_time_ms result;
          s4 = s3\<lparr>total_time_saved_ms := total_time_saved_ms s3 + time_saved\<rparr>
      in ex\<lparr>statistics := s4\<rparr>)"

record snapshot =
  snap_statistics :: stats_dict
  history_count :: nat
  recent_executions :: "history_entry list"

definition get_statistics :: "executor \<Rightarrow> snapshot" where
  "get_statistics ex =
     \<lparr>snap_statistics = statistics ex, history_count = length (execution_history ex),
      recent_executions = py_suffix 10 (execution_history ex)\<rparr>"

section \<open>Entry point\<close>

text \<open>The arguments of one call of \<^verbatim>\<open>execute_parallel\<close>.\<close>

record exec_call =
  c_prompt :: string
  c_strategy :: ProcessingStrategy
  num_interface_llms :: int
  num_knowledge_llms :: int
  c_temperature :: real
  c_max_tokens :: int
  c_module :: string
  c_context :: "(string \<times> string) list option"

text \<open>The two slices \<^verbatim>\<open>get_interface_llms()[:num_interface_llms]\<close> and its sibling.\<close>

definition interface_selection :: "world \<Rightarrow> exec_call \<Rightarrow> llm list" where
  "interface_selection w c = py_prefix (num_interface_llms c) (get_interface_llms (catalog w))"

definition knowledge_selection :: "world \<Rightarrow> exec_call \<Rightarrow> llm list" where
  "knowledge_selection w c = py_prefix (num_knowledge_llms c) (get_knowledge_llms (catalog w))"

text \<open>
  The \<^verbatim>\<open>if\<close>/\<^verbatim>\<open>elif\<close> chain over the strategy. Its final \<^verbatim>\<open>else\<close> (any other value:
  the parallel path again) is unreachable for a member of the enum.
\<close>

definition run_strategy ::
  "executor \<Rightarrow> world \<Rightarrow> exec_call \<Rightarrow> llm list \<Rightarrow> llm list \<Rightarrow> ParallelExecutionResult" where
  "run_strategy ex w c interface_llms knowledge_llms =
     (case c_strategy c of
        PARALLEL \<Rightarrow> execute_parallel_mcp ex w (c_prompt c) interface_llms knowledge_llms
                      (c_temperature c) (c_max_tokens c)
      | INTERFACE_ONLY \<Rightarrow> execute_single_type ex w (c_prompt c) interface_llms
                      (c_temperature c) (c_max_tokens c) ''interface''
      | KNOWLEDGE_ONLY \<Rightarrow> execute_single_type ex w (c_prompt c) knowledge_llms
                      (c_temperature c) (c_max_tokens c) ''knowledge''
      | SEQUENTIAL \<Rightarrow> execute_sequential ex w (c_prompt c) interface_llms knowledge_llms
                      (c_temperature c) (c_max_tokens c)
      | CONSENSUS \<Rightarrow> execute_consensus ex w (c_prompt c) (interface_llms @ knowledge_llms)
                      (c_temperature c) (c_max_tokens c))"

text \<open>The summary \<^verbatim>\<open>execute_parallel\<close> appends to \<^verbatim>\<open>execution_history\<close>.\<close>

definition history_summary :: "world \<Rightarrow> exec_call \<Rightarrow> ParallelExecutionResult \<Rightarrow> history_entry" where
  "history_summary w c result =
     \<lparr>h_timestamp = now_isoformat w, h_prompt = py_prefix 100 (c_prompt c),
      h_strategy = strategy_value (c_strategy c), h_llms_used = llms_executed result,
      h_time_ms = total_processing_time_ms result, h_speedup = parallel_speedup result\<rparr>"

text \<open>
  The two assignments \<^verbatim>\<open>self.current_module = module\<close> and
  \<^verbatim>\<open>self.current_context = context or {}\<close> at the start of \<^verbatim>\<open>execute_parallel\<close>.
\<close>

definition store_call :: "executor \<Rightarrow> exec_call \<Rightarrow> executor" where
  "store_call ex c =
     ex\<lparr>current_module := Some (c_module c),
        current_context := Some (case c_context c of None \<Rightarrow> [] | Some d \<Rightarrow> d)\<rparr>"

text \<open>
  \<^verbatim>\<open>execute_parallel\<close>. The first branch is the early \<^verbatim>\<open>return\<close> taken when both
  slices are empty: it comes before the statistics update and the history append.
\<close>

definition execute_parallel ::
  "executor \<Rightarrow> world \<Rightarrow> exec_call \<Rightarrow> ParallelExecutionResult \<times> executor" where
  "execute_parallel ex0 w c =
     (let ex = store_call ex0 c;
          interface_llms = interface_selection w c;
          knowledge_llms = knowledge_selection w c
      in if length interface_llms = 0 \<and> length knowledge_llms = 0
         then (\<lparr>success = False, strategy_used = strategy_value (c_strategy c),
                llms_executed = 0, interface_llm_results = [], knowledge_llm_results = [],
                synthesized_result = '''', confidence_score = 0,
                total_processing_time_ms = 0, parallel_speedup = 0,
                error = Some ''No LLMs available'', metadata = Some []\<rparr>, ex)
         else
           (let result0 = run_strategy ex w c interface_llms knowledge_llms;
                result = result0\<lparr>total_processing_time_ms := wall_clock_ms w\<rparr>;
                ex1 = update_statistics ex result;
                ex2 = ex1\<lparr>execution_history :=
                            execution_history ex1 @ [history_summary w c result]\<rparr>
            in (result, ex2)))"

text \<open>
  A sequence of calls on one executor, each with the world it runs in; the state of
  one call is the start state of the next.
\<close>

fun run_calls :: "executor \<Rightarrow> (world \<times> exec_call) list \<Rightarrow> executor" where
  "run_calls ex [] = ex"
| "run_calls ex ((w, c) # rest) = run_calls (snd (execute_parallel ex w c)) rest"

section \<open>The specification's words, and example data\<close>

text \<open>
  The best result in the words of the specification: the first result, in submission
  order, among the successful ones whose confidence no successful result exceeds.
\<close>

definition best_by_spec :: "LLMResponse list \<Rightarrow> LLMResponse option" where
  "best_by_spec rs =
     (let ss = filter resp_success rs
      in List.find (\<lambda>r. \<forall>x\<in>set ss. resp_confidence_score x \<le> resp_confidence_score r) ss)"

text \<open>A call is recorded when it does not take the early return.\<close>

definition recorded :: "world \<times> exec_call \<Rightarrow> bool" where
  "recorded wc = (interface_selection (fst wc) (snd wc) \<noteq> []
                  \<or> knowledge_selection (fst wc) (snd wc) \<noteq> [])"

definition mk_response ::
  "string \<Rightarrow> string \<Rightarrow> string \<Rightarrow> real \<Rightarrow> real \<Rightarrow> bool \<Rightarrow> LLMResponse" where
  "mk_response name ty text conf ms ok =
     \<lparr>llm_id = name, llm_name = name, llm_type = ty, response_text = text,
      resp_confidence_score = conf, processing_time_ms = ms, tokens_generated = 0,
      resp_success = ok, resp_error = None, resp_metadata = None\<rparr>"

definition c3_interface :: "LLMResponse list" where
  "c3_interface =
     [mk_response ''chat-7b'' ''interface'' ''draft'' 0.80 500 True,
      mk_response ''chat-13b'' ''interface'' ''solution A'' 0.95 500 True,
      mk_response ''code-7b'' ''interface'' ''solution B'' 0.95 500 True,
      mk_response ''code-13b'' ''interface'' '''' 0 0 False]"

definition c3_knowledge :: "LLMResponse list" where
  "c3_knowledge = [mk_response ''knowledge-7b'' ''knowledge'' ''background'' 0.85 300 True]"

text \<open>
  A world in which every call answers: the shipped catalogue, the confidences and the
  sleep times the simulated responder uses for a code request (0.95 after 500 ms for an
  interface model, 0.85 after 300 ms for a knowledge model), no deadline passed.
\<close>

definition demo_world :: world where
  "demo_world =
     \<lparr>catalog = COGNIWARE_LLMS,
      run_model = (\<lambda>m ctx req. if req_llm_type req = ''interface''
                                then Generated ''def main(): pass'' 0.95 200
                                else Generated ''Knowledge context: best practices.'' 0.85 60),
      elapsed_ms = (\<lambda>req. if req_llm_type req = ''interface'' then 500 else 300),
      future_exception = (\<lambda>req. None),
      wall_clock_ms = 510,
      now_isoformat = ''2025-01-01T00:00:00''\<rparr>"

text \<open>The same world with a responder that raises on every request.\<close>

definition failing_world :: world where
  "failing_world = demo_world\<lparr>run_model := (\<lambda>m ctx req. Raises ''inference engine unavailable'')\<rparr>"

text \<open>The same world with every \<^verbatim>\<open>future.result\<close> passing its deadline: \<^verbatim>\<open>str(TimeoutError())\<close> is empty.\<close>

definition timeout_world :: world where
  "timeout_world = demo_world\<lparr>future_exception := (\<lambda>req. Some '''')\<rparr>"

text \<open>A call with the default arguments of \<^verbatim>\<open>execute_parallel\<close> and the given strategy and counts.\<close>

definition demo_call :: "ProcessingStrategy \<Rightarrow> int \<Rightarrow> int \<Rightarrow> exec_call" where
  "demo_call s ni nk =
     \<lparr>c_prompt = ''Generate Python code for Fibonacci series'', c_strategy = s,
      num_interface_llms = ni, num_knowledge_llms = nk, c_temperature = 0.7,
      c_max_tokens = 2048, c_module = ''code_generation'', c_context = None\<rparr>"

text \<open>Sequences of calls on one executor.\<close>

definition eleven_calls :: "(world \<times> exec_call) list" where
  "eleven_calls = replicate 11 (demo_world, demo_call PARALLEL 2 1)"

text \<open>What the collecting loop of \<^verbatim>\<open>_execute_parallel_mcp\<close> records for one request.\<close>

definition future_response :: "executor \<Rightarrow> world \<Rightarrow> LLMRequest \<Rightarrow> LLMResponse" where
  "future_response ex w req =
     (case future_exception w req of
        None \<Rightarrow> execute_single_llm ex w req
      | Some e \<Rightarrow> error_response req e)"

text \<open>The demo world with the deadline passing for one model only.\<close>

definition one_timeout_world :: world where
  "one_timeout_world =
     demo_world\<lparr>future_exception :=
       (\<lambda>req. if req_llm_id req = ''cogniware-chat-13b'' then Some '''' else None)\<rparr>"

section \<open>The first maximum\<close>

lemma max_from_ge:
  "key b \<le> key (max_from key b xs) \<and> (\<forall>x\<in>set xs. key x \<le> key (max_from key b xs))"
proof (induction xs arbitrary: b)
  case Nil
  show ?case by simp
next
  case (Cons x xs)
  from Cons.IH [of "if key b < key x then x else b"] show ?case
    by (auto split: if_splits)
qed

lemma max_from_mem: "max_from key b xs \<in> set (b # xs)"
  by (induction xs arbitrary: b) (auto split: if_splits)

lemma max_from_first:
  "List.find (\<lambda>r. key (max_from key b xs) \<le> key r) (b # xs) = Some (max_from key b xs)"
proof (induction xs arbitrary: b)
  case Nil
  show ?case by simp
next
  case (Cons x xs)
  show ?case
  proof (cases "key b < key x")
    case True
    with max_from_ge [of key x xs] have "\<not> key (max_from key x xs) \<le> key b" by auto
    with True Cons.IH [of x] show ?thesis by simp
  next
    case False
    with Cons.IH [of b] show ?thesis by (auto split: if_splits)
  qed
qed

lemma py_max_key_first:
  "py_max_key key xs = List.find (\<lambda>r. \<forall>x\<in>set xs. key x \<le> key r) xs"
proof (cases xs)
  case Nil
  then show ?thesis by (simp add: py_max_key_def)
next
  case (Cons b rest)
  let ?m = "max_from key b rest"
  have "List.find (\<lambda>r. \<forall>x\<in>set xs. key x \<le> key r) xs = List.find (\<lambda>r. key ?m \<le> key r) xs"
  proof (rule find_cong [OF refl])
    fix r assume "r \<in> set xs"
    show "(\<forall>x\<in>set xs. key x \<le> key r) = (key ?m \<le> key r)"
      using max_from_ge [of key b rest] max_from_mem [of key b rest] Cons
      by (auto intro: order_trans)
  qed
  with Cons max_from_first [of key b rest] show ?thesis by (simp add: py_max_key_def)
qed

lemma best_success_spec: "best_success rs = best_by_spec rs"
  by (simp add: best_success_def best_by_spec_def py_max_key_first)

lemma best_by_spec_None: "(best_by_spec rs = None) = (\<forall>r\<in>set rs. \<not> resp_success r)"
  unfolding best_success_spec [symmetric] best_success_def py_max_key_def
  by (auto split: list.splits simp: filter_empty_conv) (metis filter_empty_conv list.distinct(1))

section \<open>Synthesis\<close>

text \<open>
  C3. Synthesis over a list of interface results and a list of knowledge results. With a
  success in both lists the confidence is 0.7 times the best interface confidence plus
  0.3 times the best knowledge confidence and the text is the best interface text with
  the knowledge block appended; with successes only among the interface results it is
  0.8 times the best interface confidence; only among the knowledge results, 0.6 times
  the best knowledge confidence. The best result is the first of highest confidence
  among the successes.
\<close>

theorem C3_synthesis_weighting:
  assumes "synthesize_parallel_results irs krs = (text, conf, sp)"
  shows "((\<exists>r\<in>set irs. resp_success r) \<and> (\<exists>r\<in>set krs. resp_success r) \<longrightarrow>
            (\<exists>bi bk. best_by_spec irs = Some bi \<and> best_by_spec krs = Some bk \<and>
               conf = 0.7 * resp_confidence_score bi + 0.3 * resp_confidence_score bk \<and>
               text = response_text bi @ knowledge_block bk))
       \<and> ((\<exists>r\<in>set irs. resp_success r) \<and> \<not> (\<exists>r\<in>set krs. resp_success r) \<longrightarrow>
            (\<exists>bi. best_by_spec irs = Some bi \<and>
               conf = 0.8 * resp_confidence_score bi \<and> text = response_text bi))
       \<and> (\<not> (\<exists>r\<in>set irs. resp_success r) \<and> (\<exists>r\<in>set krs. resp_success r) \<longrightarrow>
            (\<exists>bk. best_by_spec krs = Some bk \<and>
               conf = 0.6 * resp_confidence_score bk \<and> text = response_text bk))"
proof -
  have ex: "\<And>rs. (\<exists>r\<in>set rs. resp_success r) = (best_by_spec rs \<noteq> None)"
    by (simp add: best_by_spec_None)
  from assms show ?thesis
    unfolding ex
    by (cases "best_by_spec irs"; cases "best_by_spec krs")
       (simp_all add: synthesize_parallel_results_def Let_def best_success_spec)
qed

theorem C3_synthesis_weighting_witness:
  "(\<exists>r\<in>set c3_interface. resp_success r) \<and> (\<exists>r\<in>set c3_knowledge. resp_success r)
   \<and> best_by_spec c3_interface
        = Some (mk_response ''chat-13b'' ''interface'' ''solution A'' 0.95 500 True)
   \<and> fst (snd (synthesize_parallel_results c3_interface c3_knowledge)) = 0.92
   \<and> fst (synthesize_parallel_results c3_interface c3_knowledge)
        = ''solution A'' @ newline @ newline @ ''# Knowledge Context (from knowledge-7b):''
          @ newline @ ''# background'' @ newline"
  using C3_synthesis_weighting [of c3_interface c3_knowledge
      "fst (synthesize_parallel_results c3_interface c3_knowledge)"
      "fst (snd (synthesize_parallel_results c3_interface c3_knowledge))"
      "snd (snd (synthesize_parallel_results c3_interface c3_knowledge))"]
  by (simp add: c3_interface_def c3_knowledge_def mk_response_def best_by_spec_def
        knowledge_block_def)

section \<open>Invoker and dispatch\<close>

lemma execute_single_llm_failed:
  "\<not> resp_success (execute_single_llm ex w req) \<Longrightarrow>
     response_text (execute_single_llm ex w req) = ''''
     \<and> resp_confidence_score (execute_single_llm ex w req) = 0"
  by (simp add: execute_single_llm_def split: sim_outcome.splits)

lemma execute_single_llm_origin:
  "llm_id (execute_single_llm ex w req) = req_llm_id req"
  "llm_name (execute_single_llm ex w req) = req_llm_name req"
  "llm_type (execute_single_llm ex w req) = req_llm_type req"
  by (simp_all add: execute_single_llm_def split: sim_outcome.splits)

lemma future_response_origin:
  "llm_id (future_response ex w req) = req_llm_id req"
  "llm_name (future_response ex w req) = req_llm_name req"
  "llm_type (future_response ex w req) = req_llm_type req"
  by (simp_all add: future_response_def error_response_def execute_single_llm_origin
        split: option.splits)

lemma future_response_failed:
  "\<not> resp_success (future_response ex w req) \<Longrightarrow>
     response_text (future_response ex w req) = ''''
     \<and> resp_confidence_score (future_response ex w req) = 0"
  by (simp add: future_response_def error_response_def execute_single_llm_failed
        split: option.splits)

lemma collect_parallel_eq:
  "collect_parallel ex w reqs irs krs =
     (irs @ map (future_response ex w) (filter (\<lambda>q. req_llm_type q = ''interface'') reqs),
      krs @ map (future_response ex w) (filter (\<lambda>q. req_llm_type q \<noteq> ''interface'') reqs))"
  by (induction reqs arbitrary: irs krs) (simp_all add: Let_def future_response_def)

lemma collect_consensus_eq:
  "collect_consensus ex w reqs acc =
     acc @ map (execute_single_llm ex w) (filter (\<lambda>q. future_exception w q = None) reqs)"
  by (induction reqs arbitrary: acc) (simp_all split: option.splits)

lemma parallel_requests_interface:
  "filter (\<lambda>q. req_llm_type q = ''interface'') (parallel_requests p ils kls temp maxtok)
   = take (length ils) (parallel_requests p ils kls temp maxtok)"
  "filter (\<lambda>q. req_llm_type q \<noteq> ''interface'') (parallel_requests p ils kls temp maxtok)
   = drop (length ils) (parallel_requests p ils kls temp maxtok)"
  by (simp_all add: parallel_requests_def filter_map comp_def)

lemma execute_parallel_mcp_lists:
  "interface_llm_results (execute_parallel_mcp ex w p ils kls temp maxtok)
     = map (future_response ex w) (take (length ils) (parallel_requests p ils kls temp maxtok))"
  "knowledge_llm_results (execute_parallel_mcp ex w p ils kls temp maxtok)
     = map (future_response ex w) (drop (length ils) (parallel_requests p ils kls temp maxtok))"
  "llms_executed (execute_parallel_mcp ex w p ils kls temp maxtok) = length ils + length kls"
  by (simp_all add: execute_parallel_mcp_def collect_parallel_eq parallel_requests_interface
        Let_def split: prod.splits)
     (simp add: parallel_requests_def)

lemma execute_parallel_mcp_synth:
  "synthesized_result (execute_parallel_mcp ex w p ils kls temp maxtok)
     = fst (synthesize_parallel_results
              (interface_llm_results (execute_parallel_mcp ex w p ils kls temp maxtok))
              (knowledge_llm_results (execute_parallel_mcp ex w p ils kls temp maxtok)))"
  "confidence_score (execute_parallel_mcp ex w p ils kls temp maxtok)
     = fst (snd (synthesize_parallel_results
              (interface_llm_results (execute_parallel_mcp ex w p ils kls temp maxtok))
              (knowledge_llm_results (execute_parallel_mcp ex w p ils kls temp maxtok))))"
  "parallel_speedup (execute_parallel_mcp ex w p ils kls temp maxtok)
     = snd (snd (synthesize_parallel_results
              (interface_llm_results (execute_parallel_mcp ex w p ils kls temp maxtok))
              (knowledge_llm_results (execute_parallel_mcp ex w p ils kls temp maxtok))))"
  by (simp_all add: execute_parallel_mcp_def Let_def split: prod.splits)

lemma execute_sequential_synth:
  "synthesized_result (execute_sequential ex w p ils kls temp maxtok)
     = fst (synthesize_parallel_results
              (interface_llm_results (execute_sequential ex w p ils kls temp maxtok))
              (knowledge_llm_results (execute_sequential ex w p ils kls temp maxtok)))"
  "confidence_score (execute_sequential ex w p ils kls temp maxtok)
     = fst (snd (synthesize_parallel_results
              (interface_llm_results (execute_sequential ex w p ils kls temp maxtok))
              (knowledge_llm_results (execute_sequential ex w p ils kls temp maxtok))))"
  by (simp_all add: execute_sequential_def Let_def split: prod.splits)

lemma synthesize_all_failed:
  assumes "\<forall>r\<in>set (irs @ krs). \<not> resp_success r"
  shows "fst (synthesize_parallel_results irs krs)
           = ''Unable to generate result from available LLMs''"
    and "fst (snd (synthesize_parallel_results irs krs)) = 0"
proof -
  from assms have "best_success irs = None" "best_success krs = None"
    by (simp_all add: best_success_spec best_by_spec_None)
  then show "fst (synthesize_parallel_results irs krs)
           = ''Unable to generate result from available LLMs''"
    and "fst (snd (synthesize_parallel_results irs krs)) = 0"
    by (simp_all add: synthesize_parallel_results_def Let_def)
qed

lemma py_max_key_mem: "py_max_key key xs = Some b \<Longrightarrow> b \<in> set xs"
  using max_from_mem [of key] by (auto simp: py_max_key_def split: list.splits)

lemma execute_single_type_all_failed:
  assumes "ty = ''interface'' \<or> ty = ''knowledge''"
    and "res = execute_single_type ex w p llms temp maxtok ty"
    and "\<forall>r\<in>set (interface_llm_results res @ knowledge_llm_results res). \<not> resp_success r"
  shows "synthesized_result res = '''' \<and> confidence_score res = 0 \<and> \<not> success res"
proof (cases llms)
  case Nil
  with assms(2) show ?thesis by (simp add: execute_single_type_def)
next
  case (Cons l rest)
  let ?r = "execute_single_llm ex w
      \<lparr>req_llm_id = model_id l, req_llm_name = model_name l, req_llm_type = ty,
       prompt = p, temperature = temp, max_tokens = maxtok, priority = 1\<rparr>"
  from Cons assms have "\<not> resp_success ?r"
    by (auto simp: execute_single_type_def Let_def)
  with execute_single_llm_failed [OF this] Cons assms(2) show ?thesis
    by (simp add: execute_single_type_def Let_def)
qed

lemma execute_consensus_all_failed:
  assumes "\<forall>l\<in>set llms. model_type l = ''interface'' \<or> model_type l = ''knowledge''"
    and "res = execute_consensus ex w p llms temp maxtok"
    and "\<forall>r\<in>set (interface_llm_results res @ knowledge_llm_results res). \<not> resp_success r"
  shows "synthesized_result res = '''' \<and> confidence_score res = 0"
proof -
  let ?all = "collect_consensus ex w (consensus_requests p llms temp maxtok) []"
  have types: "\<forall>r\<in>set ?all. llm_type r = ''interface'' \<or> llm_type r = ''knowledge''"
  proof
    fix r assume "r \<in> set ?all"
    then obtain q where q: "q \<in> set (consensus_requests p llms temp maxtok)"
        "r = execute_single_llm ex w q"
      by (auto simp: collect_consensus_eq)
    from q(1) obtain l where "l \<in> set (py_prefix 3 llms)" "req_llm_type q = model_type l"
      by (auto simp: consensus_requests_def)
    moreover have "set (py_prefix 3 llms) \<subseteq> set llms"
      by (simp add: py_prefix_def set_take_subset)
    ultimately show "llm_type r = ''interface'' \<or> llm_type r = ''knowledge''"
      using assms(1) q(2) by (auto simp: execute_single_llm_origin)
  qed
  have failed: "\<forall>r\<in>set ?all. response_text r = '''' \<and> resp_confidence_score r = 0"
  proof
    fix r assume r: "r \<in> set ?all"
    with types assms(2,3) have "\<not> resp_success r"
      by (auto simp: execute_consensus_def Let_def)
    moreover from r obtain q where "r = execute_single_llm ex w q"
      by (auto simp: collect_consensus_eq)
    ultimately show "response_text r = '''' \<and> resp_confidence_score r = 0"
      using execute_single_llm_failed by blast
  qed
  show ?thesis
  proof (cases "py_max_key resp_confidence_score ?all")
    case None
    with assms(2) show ?thesis by (simp add: execute_consensus_def Let_def)
  next
    case (Some b)
    with py_max_key_mem [OF Some] failed assms(2) show ?thesis
      by (simp add: execute_consensus_def Let_def)
  qed
qed

lemma selection_types:
  "\<forall>l\<in>set (interface_selection w c @ knowledge_selection w c).
      model_type l = ''interface'' \<or> model_type l = ''knowledge''"
proof -
  have "set (py_prefix n xs) \<subseteq> set xs" for n and xs :: "llm list"
    by (simp add: py_prefix_def set_take_subset)
  then show ?thesis
    by (fastforce simp: interface_selection_def knowledge_selection_def
          get_interface_llms_def get_knowledge_llms_def get_llms_by_type_def)
qed

section \<open>Statistics ledger\<close>

lemma update_statistics_total:
  "total_executions (statistics (update_statistics ex r)) = total_executions (statistics ex) + 1"
  by (simp add: update_statistics_def Let_def)

lemma update_statistics_split:
  "parallel_executions (statistics (update_statistics ex r))
     + single_executions (statistics (update_statistics ex r))
   = parallel_executions (statistics ex) + single_executions (statistics ex) + 1"
  by (simp add: update_statistics_def Let_def)

lemma update_statistics_history:
  "execution_history (update_statistics ex r) = execution_history ex"
  by (simp add: update_statistics_def Let_def)

lemma update_statistics_saved:
  "total_time_saved_ms (statistics (update_statistics ex r))
   = total_time_saved_ms (statistics ex)
     + total_processing_time_ms r * (parallel_speedup r - 1)"
  by (simp add: update_statistics_def Let_def algebra_simps)

lemma execute_parallel_skipped:
  assumes "\<not> recorded (w, c)"
  shows "statistics (snd (execute_parallel ex w c)) = statistics ex"
    and "execution_history (snd (execute_parallel ex w c)) = execution_history ex"
    and "fst (execute_parallel ex w c) =
           \<lparr>success = False, strategy_used = strategy_value (c_strategy c),
            llms_executed = 0, interface_llm_results = [], knowledge_llm_results = [],
            synthesized_result = '''', confidence_score = 0,
            total_processing_time_ms = 0, parallel_speedup = 0,
            error = Some ''No LLMs available'', metadata = Some []\<rparr>"
  using assms by (simp_all add: execute_parallel_def recorded_def Let_def store_call_def)

lemma execute_parallel_result:
  assumes "recorded (w, c)"
  shows "fst (execute_parallel ex w c)
         = (run_strategy (store_call ex c) w c (interface_selection w c)
              (knowledge_selection w c))\<lparr>total_processing_time_ms := wall_clock_ms w\<rparr>"
  using assms by (auto simp: execute_parallel_def recorded_def Let_def)

lemma execute_parallel_recorded:
  assumes "recorded (w, c)"
  shows "total_executions (statistics (snd (execute_parallel ex w c)))
           = total_executions (statistics ex) + 1"
    and "parallel_executions (statistics (snd (execute_parallel ex w c)))
           + single_executions (statistics (snd (execute_parallel ex w c)))
         = parallel_executions (statistics ex) + single_executions (statistics ex) + 1"
    and "execution_history (snd (execute_parallel ex w c))
           = execution_history ex @ [history_summary w c (fst (execute_parallel ex w c))]"
  using assms
  by (simp_all add: execute_parallel_def recorded_def Let_def update_statistics_total
        update_statistics_split update_statistics_history store_call_def)

lemma execute_parallel_saved:
  assumes "recorded (w, c)"
  shows "total_time_saved_ms (statistics (snd (execute_parallel ex w c)))
           = total_time_saved_ms (statistics ex)
             + wall_clock_ms w * (parallel_speedup (fst (execute_parallel ex w c)) - 1)"
proof -
  from assms
  have ne: "(interface_selection w c = [] \<and> knowledge_selection w c = []) = False"
    by (simp add: recorded_def)
  show ?thesis
    by (simp add: execute_parallel_def Let_def ne update_statistics_saved store_call_def)
qed

lemma run_calls_total:
  "total_executions (statistics (run_calls ex calls))
   = total_executions (statistics ex) + length (filter recorded calls)"
proof (induction calls arbitrary: ex)
  case Nil
  show ?case by simp
next
  case (Cons wc calls)
  obtain w c where wc: "wc = (w, c)" by (cases wc)
  show ?case
    using Cons.IH [of "snd (execute_parallel ex w c)"]
    by (cases "recorded (w, c)")
       (simp_all add: wc execute_parallel_recorded(1) execute_parallel_skipped(1))
qed

lemma run_calls_split:
  "parallel_executions (statistics (run_calls ex calls))
     + single_executions (statistics (run_calls ex calls))
   = parallel_executions (statistics ex) + single_executions (statistics ex)
     + length (filter recorded calls)"
proof (induction calls arbitrary: ex)
  case Nil
  show ?case by simp
next
  case (Cons wc calls)
  obtain w c where wc: "wc = (w, c)" by (cases wc)
  show ?case
    using Cons.IH [of "snd (execute_parallel ex w c)"]
    by (cases "recorded (w, c)")
       (simp_all add: wc execute_parallel_recorded(2) execute_parallel_skipped(1))
qed

lemma run_calls_history:
  "\<exists>added. execution_history (run_calls ex calls) = execution_history ex @ added
           \<and> length added = length (filter recorded calls)"
proof (induction calls arbitrary: ex)
  case Nil
  show ?case by simp
next
  case (Cons wc calls)
  obtain w c where wc: "wc = (w, c)" by (cases wc)
  from Cons.IH [of "snd (execute_parallel ex w c)"]
  obtain added where a:
    "execution_history (run_calls (snd (execute_parallel ex w c)) calls)
       = execution_history (snd (execute_parallel ex w c)) @ added"
    "length added = length (filter recorded calls)" by blast
  show ?case
  proof (cases "recorded (w, c)")
    case True
    with a show ?thesis
      by (simp add: wc execute_parallel_recorded(3))
  next
    case False
    with a show ?thesis
      by (simp add: wc execute_parallel_skipped(2))
  qed
qed

lemma recorded_demo: "recorded (demo_world, demo_call s 2 1)"
  by (simp add: recorded_def interface_selection_def demo_world_def demo_call_def
        py_prefix_def get_interface_llms_def get_llms_by_type_def COGNIWARE_LLMS_def mk_llm_def)

lemma recorded_failing: "recorded (failing_world, demo_call s 2 1)"
  by (simp add: recorded_def interface_selection_def failing_world_def demo_world_def
        demo_call_def py_prefix_def get_interface_llms_def get_llms_by_type_def
        COGNIWARE_LLMS_def mk_llm_def)

lemma recorded_timeout: "recorded (timeout_world, demo_call s 2 1)"
  by (simp add: recorded_def interface_selection_def timeout_world_def demo_world_def
        demo_call_def py_prefix_def get_interface_llms_def get_llms_by_type_def
        COGNIWARE_LLMS_def mk_llm_def)

lemma not_recorded_demo: "\<not> recorded (demo_world, demo_call s 0 0)"
  by (simp add: recorded_def interface_selection_def knowledge_selection_def demo_call_def
        py_prefix_def)

text \<open>
  What holds of the counters after any sequence of calls on a fresh executor:
  \<open>total_executions\<close> is the number of calls that found at least one model in the two
  slices, and \<open>parallel_executions + single_executions = total_executions\<close>.
\<close>

lemma run_calls_ledger_counts:
  "total_executions (statistics (run_calls (init_executor n) calls))
     = length (filter recorded calls)
   \<and> parallel_executions (statistics (run_calls (init_executor n) calls))
       + single_executions (statistics (run_calls (init_executor n) calls))
     = total_executions (statistics (run_calls (init_executor n) calls))"
  using run_calls_total [of "init_executor n" calls] run_calls_split [of "init_executor n" calls]
  by (simp add: init_executor_def)

lemma py_suffix_length: "length (py_suffix n xs) = min n (length xs)"
  by (simp add: py_suffix_def)

lemma py_suffix_nth:
  "n \<le> length xs \<Longrightarrow> i < n \<Longrightarrow> py_suffix n xs ! i = xs ! (length xs - n + i)"
  by (simp add: py_suffix_def)

lemma filter_recorded_eleven: "filter recorded eleven_calls = eleven_calls"
  by (simp add: eleven_calls_def recorded_demo)

lemma length_history_eleven:
  "length (execution_history (run_calls (init_executor 8) eleven_calls)) = 11"
proof -
  from run_calls_history [of "init_executor 8" eleven_calls]
  obtain added where
    "execution_history (run_calls (init_executor 8) eleven_calls)
       = execution_history (init_executor 8) @ added"
    "length added = length (filter recorded eleven_calls)" by blast
  then show ?thesis
    by (simp add: filter_recorded_eleven init_executor_def) (simp add: eleven_calls_def)
qed

text \<open>
  C8, as the code has it. The history is a list that only grows: a call that finds a
  model appends one summary at its end, a call that finds none leaves it as it is, and
  no entry is ever removed, so after any sequence of calls the old history is a prefix
  of the new one. \<open>get_statistics\<close> reports the full length as \<open>history_count\<close> and
  the last 10 entries, oldest first, as \<open>recent_executions\<close>: once more than 10
  summaries are stored, exactly the 10 most recent ones.
\<close>

theorem C8_history_view:
  "(recorded (w, c) \<longrightarrow>
      execution_history (snd (execute_parallel ex w c))
        = execution_history ex @ [history_summary w c (fst (execute_parallel ex w c))])
   \<and> (\<not> recorded (w, c) \<longrightarrow>
      execution_history (snd (execute_parallel ex w c)) = execution_history ex)
   \<and> (\<exists>added. execution_history (run_calls ex calls) = execution_history ex @ added
          \<and> length added = length (filter recorded calls))
   \<and> history_count (get_statistics ex) = length (execution_history ex)
   \<and> recent_executions (get_statistics ex)
        = drop (length (execution_history ex) - 10) (execution_history ex)
   \<and> (10 < length (execution_history ex) \<longrightarrow>
        length (recent_executions (get_statistics ex)) = 10
        \<and> (\<forall>i<10. recent_executions (get_statistics ex) ! i
               = execution_history ex ! (length (execution_history ex) - 10 + i)))"
  using run_calls_history [of ex calls]
  by (simp add: execute_parallel_recorded(3) execute_parallel_skipped(2) get_statistics_def
        py_suffix_length py_suffix_nth)
     (simp add: py_suffix_def)

theorem C8_history_view_witness:
  "recorded (demo_world, demo_call PARALLEL 2 1)
   \<and> \<not> recorded (demo_world, demo_call PARALLEL 0 0)
   \<and> length (execution_history
        (snd (execute_parallel (init_executor 8) demo_world (demo_call PARALLEL 2 1)))) = 1
   \<and> execution_history
        (snd (execute_parallel (init_executor 8) demo_world (demo_call PARALLEL 0 0))) = []
   \<and> 10 < length (execution_history (run_calls (init_executor 8) eleven_calls))
   \<and> length (recent_executions
        (get_statistics (run_calls (init_executor 8) eleven_calls))) = 10
   \<and> recent_executions (get_statistics (run_calls (init_executor 8) eleven_calls)) ! 0
        = execution_history (run_calls (init_executor 8) eleven_calls) ! 1"
  using C8_history_view [of demo_world "demo_call PARALLEL 2 1" "init_executor 8" "[]"]
    C8_history_view [of demo_world "demo_call PARALLEL 0 0" "init_executor 8" "[]"]
    C8_history_view [of demo_world "demo_call PARALLEL 2 1"
      "run_calls (init_executor 8) eleven_calls" "[]"]
  by (simp add: recorded_demo not_recorded_demo length_history_eleven)
     (simp add: init_executor_def)

text \<open>
  After eleven recorded calls the store holds eleven summaries, not ten, and the
  snapshot reports that length.
\<close>

theorem C8_history_view_counterexample:
  "length (execution_history (run_calls (init_executor 8) eleven_calls)) = 11
   \<and> history_count (get_statistics (run_calls (init_executor 8) eleven_calls)) = 11"
  by (simp add: length_history_eleven get_statistics_def)

text \<open>
  C10. Every recorded execution adds \<open>total_processing_time_ms * (parallel_speedup - 1)\<close>
  to \<open>total_time_saved_ms\<close>; the sequential strategy always reports the speedup 0.5; so a
  recorded sequential execution with positive elapsed time lowers the counter by half
  that time, and on a fresh executor leaves it negative.
\<close>

theorem C10_time_saved_decreases:
  "total_time_saved_ms (statistics (update_statistics ex r))
     = total_time_saved_ms (statistics ex)
       + total_processing_time_ms r * (parallel_speedup r - 1)
   \<and> parallel_speedup (execute_sequential ex w p ils kls temp maxtok) = 0.5
   \<and> (c_strategy c = SEQUENTIAL \<and> recorded (w, c) \<and> 0 < wall_clock_ms w \<longrightarrow>
        total_time_saved_ms (statistics (snd (execute_parallel ex w c)))
          = total_time_saved_ms (statistics ex) - wall_clock_ms w / 2
        \<and> total_time_saved_ms (statistics (snd (execute_parallel ex w c)))
          < total_time_saved_ms (statistics ex)
        \<and> total_time_saved_ms (statistics (snd (execute_parallel (init_executor n) w c))) < 0)"
proof -
  have seq: "parallel_speedup (execute_sequential ex' w p' ils' kls' temp' maxtok') = 1 / 2"
    for ex' p' ils' kls' temp' maxtok'
    by (simp add: execute_sequential_def Let_def split: prod.splits)
  have sp: "parallel_speedup (fst (execute_parallel ex' w c)) = 1 / 2"
    if "c_strategy c = SEQUENTIAL" "recorded (w, c)" for ex'
    using that by (simp add: execute_parallel_result run_strategy_def seq)
  have step: "total_time_saved_ms (statistics (snd (execute_parallel ex' w c)))
                = total_time_saved_ms (statistics ex') - wall_clock_ms w / 2"
    if "c_strategy c = SEQUENTIAL" "recorded (w, c)" for ex'
    using that by (simp add: execute_parallel_saved sp)
  have "total_time_saved_ms (statistics (init_executor n)) = 0"
    by (simp add: init_executor_def)
  with step [of ex] step [of "init_executor n"] seq [of ex p ils kls temp maxtok]
  show ?thesis
    by (simp add: update_statistics_saved)
qed

theorem C10_time_saved_decreases_witness:
  "c_strategy (demo_call SEQUENTIAL 2 1) = SEQUENTIAL
   \<and> recorded (demo_world, demo_call SEQUENTIAL 2 1) \<and> 0 < wall_clock_ms demo_world
   \<and> total_time_saved_ms (statistics
        (snd (execute_parallel (init_executor 8) demo_world (demo_call SEQUENTIAL 2 1)))) = - 255
   \<and> total_time_saved_ms (statistics
        (snd (execute_parallel (init_executor 8) demo_world (demo_call SEQUENTIAL 2 1)))) < 0"
  using C10_time_saved_decreases [of "init_executor 8" undefined demo_world "[]" "[]" "[]" 0 0
      "demo_call SEQUENTIAL 2 1" 8]
  by (simp add: recorded_demo)
     (simp add: demo_call_def demo_world_def init_executor_def)

section \<open>Results of one call\<close>

lemma execute_parallel_fields:
  assumes "recorded (w, c)"
  shows "success (fst (execute_parallel ex w c))
           = success (run_strategy (store_call ex c) w c (interface_selection w c)
                        (knowledge_selection w c))"
    and "llms_executed (fst (execute_parallel ex w c))
           = llms_executed (run_strategy (store_call ex c) w c (interface_selection w c)
                        (knowledge_selection w c))"
    and "interface_llm_results (fst (execute_parallel ex w c))
           = interface_llm_results (run_strategy (store_call ex c) w c (interface_selection w c)
                        (knowledge_selection w c))"
    and "knowledge_llm_results (fst (execute_parallel ex w c))
           = knowledge_llm_results (run_strategy (store_call ex c) w c (interface_selection w c)
                        (knowledge_selection w c))"
    and "synthesized_result (fst (execute_parallel ex w c))
           = synthesized_result (run_strategy (store_call ex c) w c (interface_selection w c)
                        (knowledge_selection w c))"
    and "confidence_score (fst (execute_parallel ex w c))
           = confidence_score (run_strategy (store_call ex c) w c (interface_selection w c)
                        (knowledge_selection w c))"
    and "parallel_speedup (fst (execute_parallel ex w c))
           = parallel_speedup (run_strategy (store_call ex c) w c (interface_selection w c)
                        (knowledge_selection w c))"
    and "error (fst (execute_parallel ex w c))
           = error (run_strategy (store_call ex c) w c (interface_selection w c)
                        (knowledge_selection w c))"
  by (simp_all add: execute_parallel_result [OF assms])

text \<open>
  C1, as the code has it. When a call finds at least one model and every result it
  collects is a failure, the combined confidence is 0 under every strategy; the
  synthesized text is the fixed notice of the synthesizer under \<open>parallel\<close> and
  \<open>sequential\<close> and is empty under \<open>interface_only\<close>, \<open>knowledge_only\<close> and
  \<open>consensus\<close>; under \<open>interface_only\<close> and \<open>knowledge_only\<close> the result has
  \<open>success = False\<close>.
\<close>

theorem C1_all_failed:
  assumes "res = fst (execute_parallel ex w c)"
    and "recorded (w, c)"
    and "\<forall>r\<in>set (interface_llm_results res @ knowledge_llm_results res). \<not> resp_success r"
  shows "confidence_score res = 0
     \<and> (c_strategy c = PARALLEL \<or> c_strategy c = SEQUENTIAL \<longrightarrow>
          synthesized_result res = ''Unable to generate result from available LLMs'')
     \<and> (c_strategy c = INTERFACE_ONLY \<or> c_strategy c = KNOWLEDGE_ONLY \<or> c_strategy c = CONSENSUS \<longrightarrow>
          synthesized_result res = '''')
     \<and> (c_strategy c = INTERFACE_ONLY \<or> c_strategy c = KNOWLEDGE_ONLY \<longrightarrow> \<not> success res)"
proof -
  let ?r0 = "run_strategy (store_call ex c) w c (interface_selection w c) (knowledge_selection w c)"
  note f = execute_parallel_fields [OF assms(2), of ex]
  from assms(1,3) f
  have failed: "\<forall>r\<in>set (interface_llm_results ?r0 @ knowledge_llm_results ?r0). \<not> resp_success r"
    by simp
  have eqs: "confidence_score res = confidence_score ?r0"
    "synthesized_result res = synthesized_result ?r0" "success res = success ?r0"
    using assms(1) f by simp_all
  show ?thesis
  proof (cases "c_strategy c")
    case PARALLEL
    with failed have
      "\<forall>r\<in>set (interface_llm_results (execute_parallel_mcp (store_call ex c) w (c_prompt c)
             (interface_selection w c) (knowledge_selection w c) (c_temperature c) (c_max_tokens c))
          @ knowledge_llm_results (execute_parallel_mcp (store_call ex c) w (c_prompt c)
             (interface_selection w c) (knowledge_selection w c) (c_temperature c) (c_max_tokens c))).
         \<not> resp_success r"
      by (simp add: run_strategy_def)
    from synthesize_all_failed [OF this] PARALLEL show ?thesis
      by (simp add: eqs run_strategy_def execute_parallel_mcp_synth)
  next
    case SEQUENTIAL
    with failed have
      "\<forall>r\<in>set (interface_llm_results (execute_sequential (store_call ex c) w (c_prompt c)
             (interface_selection w c) (knowledge_selection w c) (c_temperature c) (c_max_tokens c))
          @ knowledge_llm_results (execute_sequential (store_call ex c) w (c_prompt c)
             (interface_selection w c) (knowledge_selection w c) (c_temperature c) (c_max_tokens c))).
         \<not> resp_success r"
      by (simp add: run_strategy_def)
    from synthesize_all_failed [OF this] SEQUENTIAL show ?thesis
      by (simp add: eqs run_strategy_def execute_sequential_synth)
  next
    case INTERFACE_ONLY
    with failed execute_single_type_all_failed [of "''interface''" ?r0 "store_call ex c" w
        "c_prompt c" "interface_selection w c" "c_temperature c" "c_max_tokens c"]
    show ?thesis by (simp add: eqs run_strategy_def)
  next
    case KNOWLEDGE_ONLY
    with failed execute_single_type_all_failed [of "''knowledge''" ?r0 "store_call ex c" w
        "c_prompt c" "knowledge_selection w c" "c_temperature c" "c_max_tokens c"]
    show ?thesis by (simp add: eqs run_strategy_def)
  next
    case CONSENSUS
    with failed execute_consensus_all_failed [OF selection_types [of w c], of ?r0
        "store_call ex c" w "c_prompt c" "c_temperature c" "c_max_tokens c"]
    show ?thesis by (simp add: eqs run_strategy_def)
  qed
qed

theorem C1_all_failed_witness:
  "recorded (failing_world, demo_call PARALLEL 2 1)
   \<and> map resp_success
        (interface_llm_results (fst (execute_parallel (init_executor 8) failing_world
           (demo_call PARALLEL 2 1)))
         @ knowledge_llm_results (fst (execute_parallel (init_executor 8) failing_world
           (demo_call PARALLEL 2 1)))) = [False, False, False]
   \<and> confidence_score (fst (execute_parallel (init_executor 8) failing_world
        (demo_call PARALLEL 2 1))) = 0
   \<and> synthesized_result (fst (execute_parallel (init_executor 8) failing_world
        (demo_call PARALLEL 2 1))) = ''Unable to generate result from available LLMs''
   \<and> map resp_success
        (interface_llm_results (fst (execute_parallel (init_executor 8) failing_world
           (demo_call INTERFACE_ONLY 2 1)))
         @ knowledge_llm_results (fst (execute_parallel (init_executor 8) failing_world
           (demo_call INTERFACE_ONLY 2 1)))) = [False]
   \<and> synthesized_result (fst (execute_parallel (init_executor 8) failing_world
        (demo_call INTERFACE_ONLY 2 1))) = ''''
   \<and> \<not> success (fst (execute_parallel (init_executor 8) failing_world
        (demo_call INTERFACE_ONLY 2 1)))"
proof -
  have pm: "map resp_success
        (interface_llm_results (fst (execute_parallel (init_executor 8) failing_world
           (demo_call PARALLEL 2 1)))
         @ knowledge_llm_results (fst (execute_parallel (init_executor 8) failing_world
           (demo_call PARALLEL 2 1)))) = [False, False, False]"
    by code_simp
  have im: "map resp_success
        (interface_llm_results (fst (execute_parallel (init_executor 8) failing_world
           (demo_call INTERFACE_ONLY 2 1)))
         @ knowledge_llm_results (fst (execute_parallel (init_executor 8) failing_world
           (demo_call INTERFACE_ONLY 2 1)))) = [False]"
    by code_simp
  have p: "\<forall>r\<in>set (interface_llm_results (fst (execute_parallel (init_executor 8) failing_world
                   (demo_call PARALLEL 2 1)))
               @ knowledge_llm_results (fst (execute_parallel (init_executor 8) failing_world
                   (demo_call PARALLEL 2 1)))). \<not> resp_success r"
    by code_simp
  have i: "\<forall>r\<in>set (interface_llm_results (fst (execute_parallel (init_executor 8) failing_world
                   (demo_call INTERFACE_ONLY 2 1)))
               @ knowledge_llm_results (fst (execute_parallel (init_executor 8) failing_world
                   (demo_call INTERFACE_ONLY 2 1)))). \<not> resp_success r"
    by code_simp
  have s: "c_strategy (demo_call PARALLEL 2 1) = PARALLEL"
    "c_strategy (demo_call INTERFACE_ONLY 2 1) = INTERFACE_ONLY"
    by (simp_all add: demo_call_def)
  note t1 = C1_all_failed [OF refl recorded_failing p]
  note t2 = C1_all_failed [OF refl recorded_failing i]
  from t1 s(1) have a: "confidence_score (fst (execute_parallel (init_executor 8) failing_world
        (demo_call PARALLEL 2 1))) = 0"
    "synthesized_result (fst (execute_parallel (init_executor 8) failing_world
        (demo_call PARALLEL 2 1))) = ''Unable to generate result from available LLMs''"
    by simp_all
  from t2 s(2) have b: "synthesized_result (fst (execute_parallel (init_executor 8) failing_world
        (demo_call INTERFACE_ONLY 2 1))) = ''''"
    "\<not> success (fst (execute_parallel (init_executor 8) failing_world
        (demo_call INTERFACE_ONLY 2 1)))"
    by simp_all
  show ?thesis
    by (intro conjI) (rule recorded_failing pm im a b)+
qed

text \<open>
  Under \<open>parallel\<close>, with all three calls failing, the result has \<open>success = True\<close>
  and a synthesized text that is not empty.
\<close>

theorem C1_all_failed_counterexample:
  "map resp_success
     (interface_llm_results (fst (execute_parallel (init_executor 8) failing_world
        (demo_call PARALLEL 2 1)))
      @ knowledge_llm_results (fst (execute_parallel (init_executor 8) failing_world
        (demo_call PARALLEL 2 1)))) = [False, False, False]
   \<and> success (fst (execute_parallel (init_executor 8) failing_world (demo_call PARALLEL 2 1)))
   \<and> synthesized_result (fst (execute_parallel (init_executor 8) failing_world
        (demo_call PARALLEL 2 1))) \<noteq> ''''"
  by code_simp

section \<open>Speedup\<close>

lemma py_max_Max:
  assumes "xs \<noteq> []"
  shows "py_max xs = Max (set xs)"
proof -
  from assms obtain y ys where "xs = y # ys" by (cases xs) auto
  then show ?thesis by (simp only: py_max_def list.sel Max.set_eq_fold)
qed

lemma synthesize_speedup:
  "snd (snd (synthesize_parallel_results irs krs))
   = (if 0 < Max (insert 0 (set (map processing_time_ms (irs @ krs))))
      then sum_list (map processing_time_ms (irs @ krs))
           / Max (insert 0 (set (map processing_time_ms (irs @ krs))))
      else 1)"
proof -
  have "py_max (map processing_time_ms irs @ [0] @ map processing_time_ms krs @ [0])
        = Max (insert 0 (set (map processing_time_ms (irs @ krs))))"
    by (simp add: py_max_Max Un_commute insert_commute Un_left_commute)
  then show ?thesis
    by (simp add: synthesize_parallel_results_def Let_def split: option.splits)
qed

lemma Max_insert_zero:
  fixes ts :: "real list"
  assumes "ts \<noteq> []" "\<forall>t\<in>set ts. 0 < t"
  shows "Max (insert 0 (set ts)) = Max (set ts)" "0 < Max (set ts)"
proof -
  from assms have "Max (set ts) \<in> set ts" by (simp add: Max_in)
  with assms show pos: "0 < Max (set ts)" by blast
  from assms(1) have "Max (insert 0 (set ts)) = max 0 (Max (set ts))"
    by (simp add: Max_insert)
  with pos show "Max (insert 0 (set ts)) = Max (set ts)" by simp
qed

lemma execute_consensus_speedup:
  "parallel_speedup (execute_consensus ex w p llms temp maxtok)
   = 0.8 * real (llms_executed (execute_consensus ex w p llms temp maxtok))"
  by (simp add: execute_consensus_def Let_def)

text \<open>
  C2, as the code has it. Under the \<open>parallel\<close> strategy, when the call collects at
  least one result and every collected result has a positive elapsed time, the reported
  speedup is the sum of the elapsed times divided by their maximum (interface times
  500, 500 and knowledge time 300 give 2.6). Under \<open>consensus\<close> the reported speedup
  is 0.8 times the number of collected results.
\<close>

theorem C2_speedup:
  "(c_strategy c = PARALLEL
    \<and> ts = map processing_time_ms
                (interface_llm_results (fst (execute_parallel ex w c))
                 @ knowledge_llm_results (fst (execute_parallel ex w c)))
    \<and> ts \<noteq> [] \<and> (\<forall>t\<in>set ts. 0 < t)
    \<longrightarrow> parallel_speedup (fst (execute_parallel ex w c)) = sum_list ts / Max (set ts))
   \<and> (c_strategy c = CONSENSUS
    \<longrightarrow> parallel_speedup (fst (execute_parallel ex w c))
        = 0.8 * real (llms_executed (fst (execute_parallel ex w c))))"
proof (intro conjI impI)
  assume a: "c_strategy c = PARALLEL
    \<and> ts = map processing_time_ms
                (interface_llm_results (fst (execute_parallel ex w c))
                 @ knowledge_llm_results (fst (execute_parallel ex w c)))
    \<and> ts \<noteq> [] \<and> (\<forall>t\<in>set ts. 0 < t)"
  have rec: "recorded (w, c)"
  proof (rule ccontr)
    assume "\<not> recorded (w, c)"
    from execute_parallel_skipped(3) [OF this, of ex] a show False by auto
  qed
  let ?r0 = "execute_parallel_mcp (store_call ex c) w (c_prompt c) (interface_selection w c)
               (knowledge_selection w c) (c_temperature c) (c_max_tokens c)"
  from a rec have t: "ts = map processing_time_ms
      (interface_llm_results ?r0 @ knowledge_llm_results ?r0)"
    by (simp add: execute_parallel_fields run_strategy_def)
  from a rec have "parallel_speedup (fst (execute_parallel ex w c)) = parallel_speedup ?r0"
    by (simp add: execute_parallel_fields run_strategy_def)
  also have "\<dots> = (if 0 < Max (insert 0 (set ts)) then sum_list ts / Max (insert 0 (set ts))
                    else 1)"
    unfolding execute_parallel_mcp_synth(3) synthesize_speedup t ..
  also have "\<dots> = sum_list ts / Max (set ts)"
  proof -
    from a have "ts \<noteq> []" and "\<forall>t\<in>set ts. 0 < t" by blast+
    note m = Max_insert_zero [OF this]
    show ?thesis by (simp only: m if_True)
  qed
  finally show "parallel_speedup (fst (execute_parallel ex w c)) = sum_list ts / Max (set ts)" .
next
  assume s: "c_strategy c = CONSENSUS"
  show "parallel_speedup (fst (execute_parallel ex w c))
        = 0.8 * real (llms_executed (fst (execute_parallel ex w c)))"
  proof (cases "recorded (w, c)")
    case True
    with s show ?thesis
      by (simp add: execute_parallel_fields run_strategy_def execute_consensus_speedup)
  next
    case False
    from execute_parallel_skipped(3) [OF this, of ex] show ?thesis by simp
  qed
qed

lemma demo_parallel_times:
  "map processing_time_ms
     (interface_llm_results (fst (execute_parallel (init_executor 8) demo_world
        (demo_call PARALLEL 2 1)))
      @ knowledge_llm_results (fst (execute_parallel (init_executor 8) demo_world
        (demo_call PARALLEL 2 1)))) = [500, 500, 300]"
  by code_simp

theorem C2_speedup_witness:
  "map processing_time_ms
     (interface_llm_results (fst (execute_parallel (init_executor 8) demo_world
        (demo_call PARALLEL 2 1)))
      @ knowledge_llm_results (fst (execute_parallel (init_executor 8) demo_world
        (demo_call PARALLEL 2 1)))) = [500, 500, 300]
   \<and> parallel_speedup (fst (execute_parallel (init_executor 8) demo_world
        (demo_call PARALLEL 2 1))) = 2.6
   \<and> c_strategy (demo_call CONSENSUS 2 1) = CONSENSUS
   \<and> parallel_speedup (fst (execute_parallel (init_executor 8) timeout_world
        (demo_call CONSENSUS 2 1)))
      = 0.8 * real (llms_executed (fst (execute_parallel (init_executor 8) timeout_world
        (demo_call CONSENSUS 2 1))))"
proof -
  have p: "c_strategy (demo_call PARALLEL 2 1) = PARALLEL" and s: "c_strategy (demo_call CONSENSUS 2 1) = CONSENSUS"
    by (simp_all add: demo_call_def)
  have h: "c_strategy (demo_call PARALLEL 2 1) = PARALLEL
     \<and> [500, 500, 300] = map processing_time_ms
         (interface_llm_results (fst (execute_parallel (init_executor 8) demo_world
            (demo_call PARALLEL 2 1)))
          @ knowledge_llm_results (fst (execute_parallel (init_executor 8) demo_world
            (demo_call PARALLEL 2 1))))
     \<and> [500, 500, 300] \<noteq> ([] :: real list) \<and> (\<forall>t\<in>set [500, 500, 300 :: real]. 0 < t)"
  proof (intro conjI)
    show "c_strategy (demo_call PARALLEL 2 1) = PARALLEL" by (rule p)
    show "[500, 500, 300] = map processing_time_ms
         (interface_llm_results (fst (execute_parallel (init_executor 8) demo_world
            (demo_call PARALLEL 2 1)))
          @ knowledge_llm_results (fst (execute_parallel (init_executor 8) demo_world
            (demo_call PARALLEL 2 1))))"
      by (rule demo_parallel_times [symmetric])
    show "[500, 500, 300] \<noteq> ([] :: real list)" by simp
    show "\<forall>t\<in>set [500, 500, 300 :: real]. 0 < t" by simp
  qed
  from C2_speedup [of "demo_call PARALLEL 2 1" "[500, 500, 300]" "init_executor 8" demo_world] h
  have "parallel_speedup (fst (execute_parallel (init_executor 8) demo_world
          (demo_call PARALLEL 2 1))) = sum_list [500, 500, 300] / Max (set [500, 500, 300])"
    by blast
  then have "parallel_speedup (fst (execute_parallel (init_executor 8) demo_world
          (demo_call PARALLEL 2 1))) = 2.6"
    by simp
  moreover
  from C2_speedup [of "demo_call CONSENSUS 2 1" "[]" "init_executor 8" timeout_world] s
  have "parallel_speedup (fst (execute_parallel (init_executor 8) timeout_world
          (demo_call CONSENSUS 2 1)))
        = 0.8 * real (llms_executed (fst (execute_parallel (init_executor 8) timeout_world
          (demo_call CONSENSUS 2 1))))"
    by blast
  ultimately show ?thesis using s demo_parallel_times by blast
qed

text \<open>
  Under \<open>consensus\<close>, with elapsed times 500, 500 and 300, the reported speedup is
  2.4, not 2.6.
\<close>

theorem C2_speedup_counterexample:
  "map processing_time_ms
     (interface_llm_results (fst (execute_parallel (init_executor 8) demo_world
        (demo_call CONSENSUS 2 1)))
      @ knowledge_llm_results (fst (execute_parallel (init_executor 8) demo_world
        (demo_call CONSENSUS 2 1)))) = [500, 500, 300]
   \<and> parallel_speedup (fst (execute_parallel (init_executor 8) demo_world
        (demo_call CONSENSUS 2 1))) = 2.4
   \<and> (500 + 500 + 300) / 500 = (2.6 :: real)"
  by code_simp

section \<open>No models available\<close>

lemma execute_single_type_none:
  "execute_single_type ex w p [] temp maxtok ty =
     \<lparr>success = False, strategy_used = ty @ ''_only'', llms_executed = 0,
      interface_llm_results = [], knowledge_llm_results = [],
      synthesized_result = '''', confidence_score = 0,
      total_processing_time_ms = 0, parallel_speedup = 1,
      error = Some (''No '' @ ty @ '' LLMs available''), metadata = None\<rparr>"
  by (simp add: execute_single_type_def)

text \<open>
  C4, as the code has it. When both slices are empty the call returns a failed result
  with no model executed and the error text \<open>No LLMs available\<close>. When the strategy is
  \<open>interface_only\<close> (or \<open>knowledge_only\<close>) and only its own slice is empty, the
  result is failed, with no model executed and the error text
  \<open>No interface LLMs available\<close> (or \<open>No knowledge LLMs available\<close>).
\<close>

theorem C4_no_models:
  "(interface_selection w c = [] \<and> knowledge_selection w c = [] \<longrightarrow>
      \<not> success (fst (execute_parallel ex w c))
      \<and> llms_executed (fst (execute_parallel ex w c)) = 0
      \<and> error (fst (execute_parallel ex w c)) = Some ''No LLMs available'')
   \<and> (c_strategy c = INTERFACE_ONLY \<and> interface_selection w c = []
       \<and> knowledge_selection w c \<noteq> [] \<longrightarrow>
      \<not> success (fst (execute_parallel ex w c))
      \<and> llms_executed (fst (execute_parallel ex w c)) = 0
      \<and> error (fst (execute_parallel ex w c)) = Some ''No interface LLMs available'')
   \<and> (c_strategy c = KNOWLEDGE_ONLY \<and> knowledge_selection w c = []
       \<and> interface_selection w c \<noteq> [] \<longrightarrow>
      \<not> success (fst (execute_parallel ex w c))
      \<and> llms_executed (fst (execute_parallel ex w c)) = 0
      \<and> error (fst (execute_parallel ex w c)) = Some ''No knowledge LLMs available'')"
proof -
  have none: "\<not> success (fst (execute_parallel ex w c))
      \<and> llms_executed (fst (execute_parallel ex w c)) = 0
      \<and> error (fst (execute_parallel ex w c)) = Some ''No LLMs available''"
    if "interface_selection w c = [] \<and> knowledge_selection w c = []"
  proof -
    from that have "\<not> recorded (w, c)" by (simp add: recorded_def)
    from execute_parallel_skipped(3) [OF this, of ex] show ?thesis by simp
  qed
  have iface: "\<not> success (fst (execute_parallel ex w c))
      \<and> llms_executed (fst (execute_parallel ex w c)) = 0
      \<and> error (fst (execute_parallel ex w c)) = Some ''No interface LLMs available''"
    if a: "c_strategy c = INTERFACE_ONLY \<and> interface_selection w c = []
       \<and> knowledge_selection w c \<noteq> []"
  proof -
    from a have "recorded (w, c)" by (simp add: recorded_def)
    with a show ?thesis
      by (simp add: execute_parallel_fields run_strategy_def execute_single_type_none)
  qed
  have know: "\<not> success (fst (execute_parallel ex w c))
      \<and> llms_executed (fst (execute_parallel ex w c)) = 0
      \<and> error (fst (execute_parallel ex w c)) = Some ''No knowledge LLMs available''"
    if a: "c_strategy c = KNOWLEDGE_ONLY \<and> knowledge_selection w c = []
       \<and> interface_selection w c \<noteq> []"
  proof -
    from a have "recorded (w, c)" by (simp add: recorded_def)
    with a show ?thesis
      by (simp add: execute_parallel_fields run_strategy_def execute_single_type_none)
  qed
  from none iface know show ?thesis by blast
qed

lemma demo_selections:
  "interface_selection demo_world (demo_call s 0 0) = []"
  "knowledge_selection demo_world (demo_call s 0 0) = []"
  "interface_selection demo_world (demo_call s 0 1) = []"
  "knowledge_selection demo_world (demo_call s 0 1) \<noteq> []"
  "interface_selection demo_world (demo_call s 2 0) \<noteq> []"
  "knowledge_selection demo_world (demo_call s 2 0) = []"
  by (simp_all add: interface_selection_def knowledge_selection_def demo_world_def
        demo_call_def py_prefix_def get_interface_llms_def get_knowledge_llms_def
        get_llms_by_type_def COGNIWARE_LLMS_def mk_llm_def)

theorem C4_no_models_witness:
  "interface_selection demo_world (demo_call PARALLEL 0 0) = []
   \<and> knowledge_selection demo_world (demo_call PARALLEL 0 0) = []
   \<and> error (fst (execute_parallel (init_executor 8) demo_world (demo_call PARALLEL 0 0)))
       = Some ''No LLMs available''
   \<and> llms_executed (fst (execute_parallel (init_executor 8) demo_world
        (demo_call PARALLEL 0 0))) = 0
   \<and> interface_selection demo_world (demo_call INTERFACE_ONLY 0 1) = []
   \<and> knowledge_selection demo_world (demo_call INTERFACE_ONLY 0 1) \<noteq> []
   \<and> error (fst (execute_parallel (init_executor 8) demo_world (demo_call INTERFACE_ONLY 0 1)))
       = Some ''No interface LLMs available''
   \<and> knowledge_selection demo_world (demo_call KNOWLEDGE_ONLY 2 0) = []
   \<and> interface_selection demo_world (demo_call KNOWLEDGE_ONLY 2 0) \<noteq> []
   \<and> error (fst (execute_parallel (init_executor 8) demo_world (demo_call KNOWLEDGE_ONLY 2 0)))
       = Some ''No knowledge LLMs available''
   \<and> \<not> success (fst (execute_parallel (init_executor 8) demo_world
        (demo_call KNOWLEDGE_ONLY 2 0)))"
proof -
  have s: "c_strategy (demo_call INTERFACE_ONLY 0 1) = INTERFACE_ONLY"
    "c_strategy (demo_call KNOWLEDGE_ONLY 2 0) = KNOWLEDGE_ONLY"
    by (simp_all add: demo_call_def)
  note t1 = C4_no_models [of demo_world "demo_call PARALLEL 0 0" "init_executor 8",
      THEN conjunct1, THEN mp, OF conjI [OF demo_selections(1) demo_selections(2)]]
  note t2 = C4_no_models [of demo_world "demo_call INTERFACE_ONLY 0 1" "init_executor 8",
      THEN conjunct2, THEN conjunct1, THEN mp,
      OF conjI [OF s(1) conjI [OF demo_selections(3) demo_selections(4)]]]
  note t3 = C4_no_models [of demo_world "demo_call KNOWLEDGE_ONLY 2 0" "init_executor 8",
      THEN conjunct2, THEN conjunct2, THEN mp,
      OF conjI [OF s(2) conjI [OF demo_selections(6) demo_selections(5)]]]
  from t1 t2 t3 show ?thesis
    by (simp only: demo_selections simp_thms)
qed

text \<open>With both counts 0 the error text is \<open>No LLMs available\<close>, not \<open>no models available\<close>.\<close>

theorem C4_no_models_counterexample:
  "interface_selection demo_world (demo_call PARALLEL 0 0) = []
   \<and> knowledge_selection demo_world (demo_call PARALLEL 0 0) = []
   \<and> error (fst (execute_parallel (init_executor 8) demo_world (demo_call PARALLEL 0 0)))
       = Some ''No LLMs available''
   \<and> error (fst (execute_parallel (init_executor 8) demo_world (demo_call PARALLEL 0 0)))
       \<noteq> Some ''no models available''"
  by code_simp

section \<open>Where the code departs from its own sibling paths\<close>

lemma execute_single_llm_raises:
  assumes "run_model w (module_of ex) (context_of ex) req = Raises e"
  shows "execute_single_llm ex w req =
           \<lparr>llm_id = req_llm_id req, llm_name = req_llm_name req, llm_type = req_llm_type req,
            response_text = '''', resp_confidence_score = 0,
            processing_time_ms = elapsed_ms w req, tokens_generated = 0,
            resp_success = False, resp_error = Some e, resp_metadata = None\<rparr>"
  using assms by (simp add: execute_single_llm_def)

lemma execute_single_llm_success:
  "resp_success (execute_single_llm ex w req)
   = (\<exists>text conf tokens. run_model w (module_of ex) (context_of ex) req
                              = Generated text conf tokens)"
  by (simp add: execute_single_llm_def split: sim_outcome.splits)

text \<open>
  C5, at the failing input. Under \<open>parallel\<close>, with every \<^verbatim>\<open>future.result\<close> passing its
  deadline, each recorded result is a failure whose error string is empty; and a
  responder that raises an exception without a message gives a failure whose error
  string is empty as well.
\<close>

theorem C5_failure_error_text:
  "map resp_success (interface_llm_results
      (fst (execute_parallel (init_executor 8) timeout_world (demo_call PARALLEL 2 1))))
     = [False, False]
   \<and> map resp_error (interface_llm_results
      (fst (execute_parallel (init_executor 8) timeout_world (demo_call PARALLEL 2 1))))
     = [Some '''', Some '''']
   \<and> map resp_error (knowledge_llm_results
      (fst (execute_parallel (init_executor 8) timeout_world (demo_call PARALLEL 2 1))))
     = [Some '''']
   \<and> resp_error (execute_single_llm (init_executor 8)
        (demo_world\<lparr>run_model := (\<lambda>m ctx req. Raises '''')\<rparr>)
        \<lparr>req_llm_id = ''cogniware-chat-7b'', req_llm_name = ''Cogniware Chat 7B'',
         req_llm_type = ''interface'', prompt = ''hello'', temperature = 0.7,
         max_tokens = 2048, priority = 1\<rparr>) = Some ''''"
  by code_simp

text \<open>
  The parallel dispatch records one result for each request, in submission order within
  each class, and each result carries the identity of its request.
\<close>

lemma execute_parallel_mcp_cardinality:
  "llms_executed (execute_parallel_mcp ex w p ils kls temp maxtok) = length ils + length kls
   \<and> length (interface_llm_results (execute_parallel_mcp ex w p ils kls temp maxtok))
       = length ils
   \<and> length (knowledge_llm_results (execute_parallel_mcp ex w p ils kls temp maxtok))
       = length kls
   \<and> map llm_id (interface_llm_results (execute_parallel_mcp ex w p ils kls temp maxtok))
       = map model_id ils
   \<and> map llm_id (knowledge_llm_results (execute_parallel_mcp ex w p ils kls temp maxtok))
       = map model_id kls"
  by (simp add: execute_parallel_mcp_lists future_response_origin comp_def)
     (simp add: parallel_requests_def comp_def)

text \<open>The consensus dispatch keeps only the requests whose future returned.\<close>

lemma execute_consensus_cardinality:
  "llms_executed (execute_consensus ex w p llms temp maxtok)
   = length (filter (\<lambda>q. future_exception w q = None) (consensus_requests p llms temp maxtok))"
  by (simp add: execute_consensus_def Let_def collect_consensus_eq)

text \<open>
  C6, at the failing input. With the deadline passing for the second of three models,
  \<open>consensus\<close> dispatches three requests and reports two results, those of the first and
  the third model; \<open>parallel\<close>, on the same models, reports three.
\<close>

theorem C6_consensus_drops_results:
  "length (consensus_requests (c_prompt (demo_call CONSENSUS 2 1))
      (interface_selection one_timeout_world (demo_call CONSENSUS 2 1)
       @ knowledge_selection one_timeout_world (demo_call CONSENSUS 2 1))
      (c_temperature (demo_call CONSENSUS 2 1)) (c_max_tokens (demo_call CONSENSUS 2 1))) = 3
   \<and> llms_executed (fst (execute_parallel (init_executor 8) one_timeout_world
        (demo_call CONSENSUS 2 1))) = 2
   \<and> map llm_id
        (interface_llm_results (fst (execute_parallel (init_executor 8) one_timeout_world
           (demo_call CONSENSUS 2 1)))
         @ knowledge_llm_results (fst (execute_parallel (init_executor 8) one_timeout_world
           (demo_call CONSENSUS 2 1))))
       = [''cogniware-chat-7b'', ''cogniware-knowledge-7b'']
   \<and> map llm_id
        (interface_llm_results (fst (execute_parallel (init_executor 8) one_timeout_world
           (demo_call PARALLEL 2 1)))
         @ knowledge_llm_results (fst (execute_parallel (init_executor 8) one_timeout_world
           (demo_call PARALLEL 2 1))))
       = [''cogniware-chat-7b'', ''cogniware-chat-13b'', ''cogniware-knowledge-7b'']"
  by code_simp

lemma recorded_interface_only_without_interface:
  "recorded (demo_world, demo_call INTERFACE_ONLY 0 1)"
  using demo_selections(4) [of INTERFACE_ONLY] by (simp add: recorded_def)

text \<open>
  C7, at the failing input. One call with both counts 0 leaves \<open>total_executions\<close> at 0,
  while one \<open>interface_only\<close> call that finds no interface model (and also executes no
  model) sets it to 1.
\<close>

theorem C7_unavailable_call_not_counted:
  "length [(demo_world, demo_call PARALLEL 0 0)] = 1
   \<and> llms_executed (fst (execute_parallel (init_executor 8) demo_world
        (demo_call PARALLEL 0 0))) = 0
   \<and> total_executions (statistics
        (run_calls (init_executor 8) [(demo_world, demo_call PARALLEL 0 0)])) = 0
   \<and> llms_executed (fst (execute_parallel (init_executor 8) demo_world
        (demo_call INTERFACE_ONLY 0 1))) = 0
   \<and> total_executions (statistics
        (run_calls (init_executor 8) [(demo_world, demo_call INTERFACE_ONLY 0 1)])) = 1"
proof -
  have a: "llms_executed (fst (execute_parallel (init_executor 8) demo_world
        (demo_call PARALLEL 0 0))) = 0"
    by (simp add: execute_parallel_skipped(3) not_recorded_demo)
  have b: "total_executions (statistics
        (run_calls (init_executor 8) [(demo_world, demo_call PARALLEL 0 0)])) = 0"
    by (simp add: execute_parallel_skipped(1) not_recorded_demo init_executor_def)
  have c: "llms_executed (fst (execute_parallel (init_executor 8) demo_world
        (demo_call INTERFACE_ONLY 0 1))) = 0"
    by code_simp
  have d: "total_executions (statistics
        (run_calls (init_executor 8) [(demo_world, demo_call INTERFACE_ONLY 0 1)])) = 1"
    by (simp add: execute_parallel_recorded(1) recorded_interface_only_without_interface
          init_executor_def)
  from a b c d show ?thesis by simp
qed

end
